theory Spec2Isabelle
  imports Main "HOL-Library.AList"
begin

section \<open>Request bodies and schema validation\<close>

text \<open>
  Both route handlers read the request body with \<open>request.json()\<close> and hand the value to
  a zod schema. The value is a JavaScript value built from JSON: \<open>null\<close>, a boolean, a
  number, a string, an array or an object. An object is kept as the list of its properties;
  \<open>map_of\<close> reads a property, and a property that is absent reads as \<open>None\<close>
  (JavaScript's \<open>undefined\<close>). A string is the list of its code units, so \<open>length\<close>
  is what JavaScript's \<open>.length\<close> returns; \<open>char\<close> has 256 values, and the program
  looks at a code unit only to compare it with the ASCII names of its schemas and with white
  space. No schema of this program reads a number, so the numeric value is kept as an
  integer tag.
\<close>

datatype json =
    JNull
  | JBool bool
  | JNum int
  | JStr string
  | JArr "json list"
  | JObj "(string \<times> json) list"

datatype path_elem = Key string | Idx nat

datatype ZodIssueCode = invalid_type | invalid_enum_value | too_small | invalid_string | custom

text \<open>
  An issue records its code, the path of the value it is about and the message the source
  passes to the check (\<open>None\<close> where the library supplies its default message).
\<close>

datatype ZodIssue =
  ZodIssue (issue_code: ZodIssueCode) (issue_path: "path_elem list") (issue_message: "string option")

text \<open>
  What a schema returns for one value: the parsed value (\<open>OK\<close>), a value that failed a
  check (\<open>DIRTY\<close>), or no value because the input has the wrong type (\<open>INVALID\<close>). The
  issues raised so far travel with the result.
\<close>

datatype 'a ParseReturn =
    OK 'a
  | DIRTY 'a "ZodIssue list"
  | INVALID "ZodIssue list"

type_synonym 'a schema = "path_elem list \<Rightarrow> json option \<Rightarrow> 'a ParseReturn"

fun issues_of :: "'a ParseReturn \<Rightarrow> ZodIssue list" where
  "issues_of (OK _) = []"
| "issues_of (DIRTY _ is) = is"
| "issues_of (INVALID is) = is"

text \<open>
  Merging the result of one more property into an object under construction: the object is
  invalid as soon as one property is, dirty when one is dirty, and all issues are kept in
  the order of the properties.
\<close>

fun merge_field :: "('a \<Rightarrow> 'b) ParseReturn \<Rightarrow> 'a ParseReturn \<Rightarrow> 'b ParseReturn" where
  "merge_field (OK f) (OK x) = OK (f x)"
| "merge_field (OK f) (DIRTY x js) = DIRTY (f x) js"
| "merge_field (DIRTY f is) (OK x) = DIRTY (f x) is"
| "merge_field (DIRTY f is) (DIRTY x js) = DIRTY (f x) (is @ js)"
| "merge_field r s = INVALID (issues_of r @ issues_of s)"

fun merge_array :: "'a ParseReturn list \<Rightarrow> 'a list ParseReturn" where
  "merge_array [] = OK []"
| "merge_array (r # rs) = merge_field (map_ParseReturn (#) r) (merge_array rs)"

text \<open>\<open>z.string()\<close>: the value must be a string.\<close>

definition z_string :: "string schema" where
  "z_string p v = (case v of Some (JStr s) \<Rightarrow> OK s | _ \<Rightarrow> INVALID [ZodIssue invalid_type p None])"

text \<open>One more check on a schema: it runs on every value the schema produced.\<close>

definition z_check :: "('a \<Rightarrow> bool) \<Rightarrow> ZodIssueCode \<Rightarrow> string option \<Rightarrow> 'a schema \<Rightarrow> 'a schema" where
  "z_check good c msg inner p v =
     (case inner p v of
        OK x \<Rightarrow> if good x then OK x else DIRTY x [ZodIssue c p msg]
      | DIRTY x is \<Rightarrow> if good x then DIRTY x is else DIRTY x (is @ [ZodIssue c p msg])
      | INVALID is \<Rightarrow> INVALID is)"

text \<open>\<open>.min(n, message)\<close> on a string: an issue when \<open>input.length < n\<close>.\<close>

definition z_min :: "nat \<Rightarrow> string \<Rightarrow> string schema \<Rightarrow> string schema" where
  "z_min n msg = z_check (\<lambda>s. \<not> length s < n) too_small (Some msg)"

text \<open>
  \<open>.url()\<close>: the library decides whether a string is a URL. That decision is not code of
  this program, so it is the parameter \<open>isUrl\<close> of everything below.
\<close>

definition z_url :: "(string \<Rightarrow> bool) \<Rightarrow> string schema \<Rightarrow> string schema" where
  "z_url isUrl = z_check isUrl invalid_string None"

text \<open>\<open>.optional()\<close>: \<open>undefined\<close> is accepted as it is; any other value goes to the inner schema.\<close>

definition z_optional :: "'a schema \<Rightarrow> 'a option schema" where
  "z_optional inner p v = (case v of None \<Rightarrow> OK None | Some _ \<Rightarrow> map_ParseReturn Some (inner p v))"

text \<open>\<open>.default(d)\<close>: \<open>undefined\<close> is replaced by the default; any other value goes to the inner schema.\<close>

definition z_default :: "'a \<Rightarrow> 'a schema \<Rightarrow> 'a schema" where
  "z_default d inner p v = (case v of None \<Rightarrow> OK d | Some _ \<Rightarrow> inner p v)"

text \<open>\<open>z.enum([...])\<close>: the value must be a string, and one of the listed ones.\<close>

definition z_enum :: "(string \<times> 'a) list \<Rightarrow> 'a schema" where
  "z_enum members p v =
     (case v of
        Some (JStr s) \<Rightarrow>
          (case map_of members s of
             Some e \<Rightarrow> OK e
           | None \<Rightarrow> INVALID [ZodIssue invalid_enum_value p None])
      | _ \<Rightarrow> INVALID [ZodIssue invalid_type p None])"

text \<open>
  \<open>z.array(element)\<close> with an optional \<open>.min(n, message)\<close>: the value must be an array; the
  length check comes first, then every element is parsed under its index.
\<close>

definition z_array :: "(nat \<times> string) option \<Rightarrow> 'a schema \<Rightarrow> 'a list schema" where
  "z_array minLength element p v =
     (case v of
        Some (JArr js) \<Rightarrow>
          (let elements = merge_array (map (\<lambda>(i, j). element (p @ [Idx i]) (Some j)) (enumerate 0 js))
           in case minLength of
                None \<Rightarrow> elements
              | Some (n, msg) \<Rightarrow>
                  if length js < n
                  then merge_field (DIRTY (\<lambda>xs. xs) [ZodIssue too_small p (Some msg)]) elements
                  else elements)
      | _ \<Rightarrow> INVALID [ZodIssue invalid_type p None])"

text \<open>
  \<open>.superRefine(f)\<close>: the refinement runs on the value of the inner schema unless that
  schema produced no value; the issues it adds make the result dirty.
\<close>

definition z_superRefine :: "('a \<Rightarrow> path_elem list \<Rightarrow> ZodIssue list) \<Rightarrow> 'a schema \<Rightarrow> 'a schema" where
  "z_superRefine refine inner p v =
     (case inner p v of
        INVALID is \<Rightarrow> INVALID is
      | DIRTY x is \<Rightarrow> DIRTY x (is @ refine x p)
      | OK x \<Rightarrow> (case refine x p of [] \<Rightarrow> OK x | is \<Rightarrow> DIRTY x is))"

text \<open>
  What the handlers' \<open>catch\<close> can receive: a \<open>ZodError\<close> with its issues, another
  \<open>Error\<close> with its message, or a thrown value that is not an \<open>Error\<close>.
\<close>

datatype thrown = ZodError "ZodIssue list" | Error string | NonError

text \<open>\<open>schema.parse(body)\<close> returns the value when there is no issue and throws a \<open>ZodError\<close> otherwise.\<close>

definition parse :: "'a schema \<Rightarrow> json \<Rightarrow> thrown + 'a" where
  "parse schema body =
     (case schema [] (Some body) of
        OK x \<Rightarrow> Inr x
      | DIRTY x is \<Rightarrow> Inl (ZodError is)
      | INVALID is \<Rightarrow> Inl (ZodError is))"

section \<open>The publish route\<close>

datatype MediaType = Media_image | Media_video

datatype SocialPlatform = Platform_x | Platform_instagram | Platform_tiktok | Platform_youtube

definition mediaType_enum :: "(string \<times> MediaType) list" where
  "mediaType_enum = [(''image'', Media_image), (''video'', Media_video)]"

definition platform_enum :: "(string \<times> SocialPlatform) list" where
  "platform_enum =
     [(''x'', Platform_x), (''instagram'', Platform_instagram),
      (''tiktok'', Platform_tiktok), (''youtube'', Platform_youtube)]"

text \<open>
  The object \<open>POST\<close> passes to \<open>publishToSocialPlatforms\<close>, and the parsed request: the
  same nine properties and the platform list.
\<close>

record PublishPayload =
  mediaType :: MediaType
  caption :: string
  title :: "string option"
  tags :: "string list option"
  mediaUrl :: "string option"
  mediaBase64 :: "string option"
  mimeType :: "string option"
  callToActionUrl :: "string option"
  campaignId :: "string option"

record PublishRequest = PublishPayload +
  platforms :: "SocialPlatform list"

definition mk_request ::
  "MediaType \<Rightarrow> string \<Rightarrow> string option \<Rightarrow> string list option \<Rightarrow> string option \<Rightarrow>
   string option \<Rightarrow> string option \<Rightarrow> string option \<Rightarrow> string option \<Rightarrow>
   SocialPlatform list \<Rightarrow> PublishRequest" where
  "mk_request mt c t tg mu mb mi cta cid pl =
     \<lparr>mediaType = mt, caption = c, title = t, tags = tg, mediaUrl = mu, mediaBase64 = mb,
      mimeType = mi, callToActionUrl = cta, campaignId = cid, platforms = pl\<rparr>"

text \<open>
  The \<open>z.object({...})\<close> of \<open>publishSchema\<close>: the body must be an object; each property
  of the shape is read and parsed by its own schema, in the order of the source; other
  properties of the body are dropped.
\<close>

definition publishObject :: "(string \<Rightarrow> bool) \<Rightarrow> PublishRequest schema" where
  "publishObject isUrl p v =
     (case v of
        Some (JObj kvs) \<Rightarrow>
          (let field = (\<lambda>k. map_of kvs k); at = (\<lambda>k. p @ [Key k]) in
           merge_field (merge_field (merge_field (merge_field (merge_field
           (merge_field (merge_field (merge_field (merge_field (merge_field
             (OK mk_request)
             (z_enum mediaType_enum (at ''mediaType'') (field ''mediaType'')))
             (z_min 3 ''Caption must be at least 3 characters.'' z_string
                (at ''caption'') (field ''caption'')))
             (z_optional z_string (at ''title'') (field ''title'')))
             (z_optional (z_array None z_string) (at ''tags'') (field ''tags'')))
             (z_optional (z_url isUrl z_string) (at ''mediaUrl'') (field ''mediaUrl'')))
             (z_optional z_string (at ''mediaBase64'') (field ''mediaBase64'')))
             (z_optional z_string (at ''mimeType'') (field ''mimeType'')))
             (z_optional (z_url isUrl z_string) (at ''callToActionUrl'') (field ''callToActionUrl'')))
             (z_optional z_string (at ''campaignId'') (field ''campaignId'')))
             (z_array (Some (1, ''Select at least one platform.'')) (z_enum platform_enum)
                (at ''platforms'') (field ''platforms'')))
      | _ \<Rightarrow> INVALID [ZodIssue invalid_type p None])"

text \<open>JavaScript's \<open>!value\<close> on an optional string: \<open>undefined\<close> and the empty string are falsy.\<close>

fun falsy :: "string option \<Rightarrow> bool" where
  "falsy None = True"
| "falsy (Some s) = (s = [])"

definition mediaRefinement :: "PublishRequest \<Rightarrow> path_elem list \<Rightarrow> ZodIssue list" where
  "mediaRefinement val p =
     (if falsy (mediaUrl val) \<and> falsy (mediaBase64 val)
      then [ZodIssue custom (p @ [Key ''mediaUrl'']) (Some ''Provide either mediaUrl or mediaBase64.'')]
      else [])"

definition publishSchema :: "(string \<Rightarrow> bool) \<Rightarrow> PublishRequest schema" where
  "publishSchema isUrl = z_superRefine mediaRefinement (publishObject isUrl)"

text \<open>One entry of the list \<open>publishToSocialPlatforms\<close> resolves to.\<close>

datatype PublishStatus = success | failure

record PlatformResult =
  platform :: SocialPlatform
  status :: PublishStatus
  message :: "string option"
  postId :: "string option"

text \<open>
  A handler answers with a JSON body and a status: 200 with the result, 422 with the issues
  of a \<open>ZodError\<close> (\<open>error.flatten()\<close> regroups the same issues by property; the list is
  kept as it is), 500 or 502 with an error text. Beside the response a run leaves what it
  wrote with \<open>console.error\<close> and the state of whatever it called outside.
\<close>

datatype 'r Response = Json200 'r | Json422 "ZodIssue list" | Json500 string | Json502 string

fun status_code :: "'r Response \<Rightarrow> nat" where
  "status_code (Json200 _) = 200"
| "status_code (Json422 _) = 422"
| "status_code (Json500 _) = 500"
| "status_code (Json502 _) = 502"

record ('r, 'w) handled =
  response :: "'r Response"
  console :: "thrown list"
  world :: 'w

text \<open>The \<open>catch\<close> block of the handlers, with the text used for a thrown value that is not an \<open>Error\<close>.\<close>

definition caught :: "string \<Rightarrow> thrown \<Rightarrow> 'w \<Rightarrow> ('r, 'w) handled" where
  "caught fallback error w =
     (case error of
        ZodError is \<Rightarrow> \<lparr>response = Json422 is, console = [], world = w\<rparr>
      | Error m \<Rightarrow> \<lparr>response = Json500 m, console = [error], world = w\<rparr>
      | NonError \<Rightarrow> \<lparr>response = Json500 fallback, console = [error], world = w\<rparr>)"

text \<open>The object literal \<open>POST\<close> builds from the parsed request, property by property.\<close>

definition publish_payload :: "PublishRequest \<Rightarrow> PublishPayload" where
  "publish_payload parsed =
     \<lparr>mediaType = mediaType parsed, caption = caption parsed, title = title parsed,
      tags = tags parsed, mediaUrl = mediaUrl parsed, mediaBase64 = mediaBase64 parsed,
      mimeType = mimeType parsed, callToActionUrl = callToActionUrl parsed,
      campaignId = campaignId parsed\<rparr>"

text \<open>
  \<open>POST\<close> of the publish route. \<open>request.json()\<close> either throws or gives the body;
  \<open>publishToSocialPlatforms\<close> is imported from another module and is a parameter here: it
  gets the payload and the platform list, acts on the outside world \<open>'w\<close>, and either
  throws or resolves to the results. Whatever is thrown inside \<open>try\<close> reaches \<open>caught\<close>.
\<close>

definition POST ::
  "(string \<Rightarrow> bool) \<Rightarrow>
   (PublishPayload \<Rightarrow> SocialPlatform list \<Rightarrow> 'w \<Rightarrow> (thrown + PlatformResult list) \<times> 'w) \<Rightarrow>
   thrown + json \<Rightarrow> 'w \<Rightarrow> (PlatformResult list, 'w) handled" where
  "POST isUrl publish request_json w =
     (let fallback = ''Unexpected error while publishing to social platforms.'' in
      case request_json of
        Inl error \<Rightarrow> caught fallback error w
      | Inr body \<Rightarrow>
          (case parse (publishSchema isUrl) body of
             Inl error \<Rightarrow> caught fallback error w
           | Inr parsed \<Rightarrow>
               (case publish (publish_payload parsed) (platforms parsed) w of
                  (Inl error, w') \<Rightarrow> caught fallback error w'
                | (Inr results, w') \<Rightarrow> \<lparr>response = Json200 results, console = [], world = w'\<rparr>)))"

subsection \<open>The orchestrator\<close>

text \<open>
  \<open>publishToSocialPlatforms\<close> and the platform adapters live in \<open>@/lib/socials\<close>, which
  is not among the sources; only the call in \<open>POST\<close> is. The definitions of this subsection
  follow sections 4.1, 6, 7 and 8 of the specification instead.
\<close>

text \<open>
  Modelled from the spec: the adapter contract of section 6,
  \<open>adapter(platform, request) -> PlatformResult\<close>. An adapter call may also raise (the
  \<open>PlatformFault\<close> of section 7), and its outcome depends on nothing but the platform and
  the request (section 5: no adapter may influence another's outcome).
\<close>

type_synonym adapter = "SocialPlatform \<Rightarrow> PublishPayload \<Rightarrow> thrown + PlatformResult"

text \<open>
  Modelled from the spec: the message "derived from the error" of section 4.1, which
  section 8 requires to be non-empty. It is the error's own message, and a fixed text for
  an error that carries none.
\<close>

definition fault_message :: "thrown \<Rightarrow> string" where
  "fault_message error =
     (case error of
        Error m \<Rightarrow> if m = [] then ''unexpected error'' else m
      | _ \<Rightarrow> ''unexpected error'')"

text \<open>
  Modelled from the spec: one adapter call and the mapping of its outcome into a
  \<open>PlatformResult\<close> (sections 4.1 and 9). A returned result is kept as it is; a raised
  error becomes a \<open>failure\<close> result of that platform with the derived message.
\<close>

definition publish_to :: "adapter \<Rightarrow> PublishPayload \<Rightarrow> SocialPlatform \<Rightarrow> PlatformResult" where
  "publish_to adapter request target =
     (case adapter target request of
        Inr result \<Rightarrow> result
      | Inl error \<Rightarrow>
          \<lparr>platform = target, status = failure, message = Some (fault_message error), postId = None\<rparr>)"

text \<open>
  Modelled from the spec: the dispatch policy and the aggregation of section 4.1. The
  targets are taken in their order, the adapter is invoked once for each, and the results
  are collected in the same order. \<open>calls\<close> is the outside world: the list of adapter
  invocations made so far. The specification speaks of a set of targets without
  duplicates and leaves open what happens to a duplicate (sections 3 and 8); this
  definition follows it for target lists without duplicates and settles nothing about
  the others.
\<close>

fun dispatch ::
  "adapter \<Rightarrow> PublishPayload \<Rightarrow> SocialPlatform list \<Rightarrow> SocialPlatform list \<Rightarrow>
   PlatformResult list \<times> SocialPlatform list" where
  "dispatch adapter request [] calls = ([], calls)"
| "dispatch adapter request (target # targets) calls =
     (let result = publish_to adapter request target;
          (results, calls') = dispatch adapter request targets (calls @ [target])
      in (result # results, calls'))"

text \<open>
  Modelled from the spec: \<open>publishToSocialPlatforms\<close> itself, the \<open>publish\<close> of section
  4.1. Platform failures and faults stay inside their results (section 7), so it always
  resolves to the collected results and never raises.
\<close>

definition publishToSocialPlatforms ::
  "adapter \<Rightarrow> PublishPayload \<Rightarrow> SocialPlatform list \<Rightarrow> SocialPlatform list \<Rightarrow>
   (thrown + PlatformResult list) \<times> SocialPlatform list" where
  "publishToSocialPlatforms adapter request targets calls =
     (case dispatch adapter request targets calls of (results, calls') \<Rightarrow> (Inr results, calls'))"

section \<open>The image generation route\<close>

datatype AspectRatio = square | portrait | landscape | ultrawide | vertical

datatype ImageSize =
  Size_1024x1024 | Size_1024x1536 | Size_1536x1024 | Size_1792x1024 | Size_1024x1792

fun aspectRatioToSize :: "AspectRatio \<Rightarrow> ImageSize" where
  "aspectRatioToSize square = Size_1024x1024"
| "aspectRatioToSize portrait = Size_1024x1536"
| "aspectRatioToSize landscape = Size_1536x1024"
| "aspectRatioToSize ultrawide = Size_1792x1024"
| "aspectRatioToSize vertical = Size_1024x1792"

datatype ImageStyle = cinematic | style_3d | illustration | photographic | digital_art

datatype ImageQuality = standard | high

datatype UpstreamStyle = vivid | natural

datatype UpstreamQuality = upstream_hd | upstream_standard

definition aspectRatio_enum :: "(string \<times> AspectRatio) list" where
  "aspectRatio_enum =
     [(''square'', square), (''portrait'', portrait), (''landscape'', landscape),
      (''ultrawide'', ultrawide), (''vertical'', vertical)]"

definition style_enum :: "(string \<times> ImageStyle) list" where
  "style_enum =
     [(''cinematic'', cinematic), (''3d'', style_3d), (''illustration'', illustration),
      (''photographic'', photographic), (''digital-art'', digital_art)]"

definition quality_enum :: "(string \<times> ImageQuality) list" where
  "quality_enum = [(''standard'', standard), (''high'', high)]"

record ImageRequest =
  prompt :: string
  aspectRatio :: AspectRatio
  style :: ImageStyle
  negativePrompt :: "string option"
  quality :: ImageQuality

definition mk_image_request ::
  "string \<Rightarrow> AspectRatio \<Rightarrow> ImageStyle \<Rightarrow> string option \<Rightarrow> ImageQuality \<Rightarrow> ImageRequest" where
  "mk_image_request pr ar st np q =
     \<lparr>prompt = pr, aspectRatio = ar, style = st, negativePrompt = np, quality = q\<rparr>"

definition requestSchema :: "ImageRequest schema" where
  "requestSchema p v =
     (case v of
        Some (JObj kvs) \<Rightarrow>
          (let field = (\<lambda>k. map_of kvs k); at = (\<lambda>k. p @ [Key k]) in
           merge_field (merge_field (merge_field (merge_field (merge_field
             (OK mk_image_request)
             (z_min 10 ''Prompt must be at least 10 characters.'' z_string
                (at ''prompt'') (field ''prompt'')))
             (z_default square (z_enum aspectRatio_enum) (at ''aspectRatio'') (field ''aspectRatio'')))
             (z_default cinematic (z_enum style_enum) (at ''style'') (field ''style'')))
             (z_optional z_string (at ''negativePrompt'') (field ''negativePrompt'')))
             (z_default high (z_enum quality_enum) (at ''quality'') (field ''quality'')))
      | _ \<Rightarrow> INVALID [ZodIssue invalid_type p None])"

text \<open>The payload sent to the image API.\<close>

record ImageGenerateParams =
  payload_model :: string
  payload_prompt :: string
  payload_size :: ImageSize
  payload_quality :: UpstreamQuality
  payload_style :: UpstreamStyle

fun styleMappings :: "ImageStyle \<Rightarrow> UpstreamStyle" where
  "styleMappings cinematic = vivid"
| "styleMappings style_3d = vivid"
| "styleMappings illustration = vivid"
| "styleMappings photographic = natural"
| "styleMappings digital_art = vivid"

text \<open>
  \<open>String.prototype.trim\<close> removes white space and line terminators at both ends. Of
  these, the code units below 256 are tab, line feed, vertical tab, form feed, carriage
  return, space and no-break space.
\<close>

definition isWhiteSpace :: "char \<Rightarrow> bool" where
  "isWhiteSpace c =
     (c \<in> set [CHR 0x09, CHR 0x0A, CHR 0x0B, CHR 0x0C, CHR 0x0D, CHR 0x20, CHR 0xA0])"

definition trim :: "string \<Rightarrow> string" where
  "trim s = rev (dropWhile isWhiteSpace (rev (dropWhile isWhiteSpace s)))"

text \<open>
  The constants \<open>prompt\<close> and \<open>payload\<close> of \<open>POST\<close>. \<open>env.VEO_MODEL\<close> comes from the
  environment and is a parameter.
\<close>

definition image_prompt :: "ImageRequest \<Rightarrow> string" where
  "image_prompt parsed =
     (case negativePrompt parsed of
        Some n \<Rightarrow>
          if n \<noteq> [] \<and> length (trim n) > 0
          then prompt parsed @ [CHR 0x0A, CHR 0x0A] @ ''Avoid: '' @ n
          else prompt parsed
      | None \<Rightarrow> prompt parsed)"

definition image_payload :: "string option \<Rightarrow> ImageRequest \<Rightarrow> ImageGenerateParams" where
  "image_payload VEO_MODEL parsed =
     \<lparr>payload_model =
        (case VEO_MODEL of Some m \<Rightarrow> if length m > 0 then m else ''veo-3'' | None \<Rightarrow> ''veo-3''),
      payload_prompt = image_prompt parsed,
      payload_size = aspectRatioToSize (aspectRatio parsed),
      payload_quality = (if quality parsed = high then upstream_hd else upstream_standard),
      payload_style = styleMappings (style parsed)\<rparr>"

text \<open>What the image API answers, and the body of the handler's 200 response.\<close>

record Image =
  b64_json :: "string option"
  url :: "string option"
  revised_prompt :: "string option"

record ImagesResponse =
  created :: int
  data :: "Image list option"

record ImageBody =
  imageBase64 :: "string option"
  imageUrl :: "string option"
  revisedPrompt :: "string option"
  body_created :: int

text \<open>
  \<open>POST\<close> of the image route. \<open>getOpenAIClient()\<close> either throws or gives the client,
  whose \<open>images.generate\<close> either throws or answers; both are outside this program and are
  parameters. The outside world is the list of payloads sent to the image API.
\<close>

definition POST_image ::
  "string option \<Rightarrow> thrown + (ImageGenerateParams \<Rightarrow> thrown + ImagesResponse) \<Rightarrow>
   thrown + json \<Rightarrow> ImageGenerateParams list \<Rightarrow> (ImageBody, ImageGenerateParams list) handled" where
  "POST_image VEO_MODEL getOpenAIClient request_json sent =
     (let fallback = ''Unexpected error during image generation.'' in
      case request_json of
        Inl error \<Rightarrow> caught fallback error sent
      | Inr body \<Rightarrow>
          (case parse requestSchema body of
             Inl error \<Rightarrow> caught fallback error sent
           | Inr parsed \<Rightarrow>
               (case getOpenAIClient of
                  Inl error \<Rightarrow> caught fallback error sent
                | Inr generate \<Rightarrow>
                    (let payload = image_payload VEO_MODEL parsed; sent' = sent @ [payload] in
                     case generate payload of
                       Inl error \<Rightarrow> caught fallback error sent'
                     | Inr answer \<Rightarrow>
                         (case data answer of
                            Some (img # _) \<Rightarrow>
                              \<lparr>response = Json200
                                 \<lparr>imageBase64 = b64_json img, imageUrl = url img,
                                  revisedPrompt = revised_prompt img,
                                  body_created = created answer\<rparr>,
                               console = [], world = sent'\<rparr>
                          | _ \<Rightarrow>
                              \<lparr>response = Json502 ''Image generation returned no results.'',
                               console = [], world = sent'\<rparr>)))))"

section \<open>Vocabulary of the properties\<close>

text \<open>Validation accepts a body when \<open>publishSchema.parse\<close> returns instead of throwing.\<close>

definition accepts :: "(string \<Rightarrow> bool) \<Rightarrow> json \<Rightarrow> bool" where
  "accepts isUrl body = (case parse (publishSchema isUrl) body of Inr _ \<Rightarrow> True | Inl _ \<Rightarrow> False)"

text \<open>A property holds a non-empty string.\<close>

fun present :: "json option \<Rightarrow> bool" where
  "present (Some (JStr s)) = (s \<noteq> [])"
| "present _ = False"

text \<open>A property is there, and is not a string the URL check passes.\<close>

fun malformed_url :: "(string \<Rightarrow> bool) \<Rightarrow> json option \<Rightarrow> bool" where
  "malformed_url isUrl None = False"
| "malformed_url isUrl (Some (JStr s)) = (\<not> isUrl s)"
| "malformed_url isUrl (Some _) = True"

text \<open>The caption is missing, not a string, or shorter than three code units.\<close>

fun bad_caption :: "json option \<Rightarrow> bool" where
  "bad_caption (Some (JStr c)) = (length c < 3)"
| "bad_caption _ = True"

text \<open>The platform list is the empty array.\<close>

fun empty_targets :: "json option \<Rightarrow> bool" where
  "empty_targets (Some (JArr [])) = True"
| "empty_targets _ = False"

text \<open>The platform list is an array, and some element is not one of the four platform names.\<close>

definition recognized :: "json \<Rightarrow> bool" where
  "recognized j = (j \<in> set [JStr ''x'', JStr ''instagram'', JStr ''tiktok'', JStr ''youtube''])"

fun unrecognized_target :: "json option \<Rightarrow> bool" where
  "unrecognized_target (Some (JArr js)) = (\<not> list_all recognized js)"
| "unrecognized_target _ = False"

text \<open>The identifier a platform is written with in a request.\<close>

fun platform_name :: "SocialPlatform \<Rightarrow> string" where
  "platform_name Platform_x = ''x''"
| "platform_name Platform_instagram = ''instagram''"
| "platform_name Platform_tiktok = ''tiktok''"
| "platform_name Platform_youtube = ''youtube''"

text \<open>An adapter call ended in a failure: it raised, or returned a result marked \<open>failure\<close>.\<close>

definition platform_failed :: "adapter \<Rightarrow> PublishPayload \<Rightarrow> SocialPlatform \<Rightarrow> bool" where
  "platform_failed adapter request target =
     (case adapter target request of Inl _ \<Rightarrow> True | Inr result \<Rightarrow> status result = failure)"

text \<open>An adapter labels every result it returns with the platform it was called for.\<close>

definition labels_own_platform :: "adapter \<Rightarrow> bool" where
  "labels_own_platform adapter =
     (\<forall>target request result. adapter target request = Inr result \<longrightarrow> platform result = target)"

text \<open>
  A request violates a validation precondition: the caption is bad, the platform list is
  empty or names an unknown platform, or no media reference is present.
\<close>

definition violates_precondition :: "(string \<times> json) list \<Rightarrow> bool" where
  "violates_precondition kvs =
     (bad_caption (map_of kvs ''caption'')
      \<or> empty_targets (map_of kvs ''platforms'')
      \<or> unrecognized_target (map_of kvs ''platforms'')
      \<or> (\<not> present (map_of kvs ''mediaUrl'') \<and> \<not> present (map_of kvs ''mediaBase64'')))"

text \<open>
  The aspect ratio a request body asks for: the default \<open>square\<close> when the property is
  absent, the named ratio when it is one of the five names.
\<close>

fun requested_ratio :: "json option \<Rightarrow> AspectRatio option" where
  "requested_ratio None = Some square"
| "requested_ratio (Some (JStr s)) = map_of aspectRatio_enum s"
| "requested_ratio (Some _) = None"

subsection \<open>Sample inputs\<close>

text \<open>
  A stand-in for the library's URL check, three adapters and some request bodies, used to
  run the handlers on concrete inputs.
\<close>

definition sample_isUrl :: "string \<Rightarrow> bool" where
  "sample_isUrl s = (take 8 s = ''https://'' \<and> 8 < length s)"

definition steady_adapter :: adapter where
  "steady_adapter target request =
     Inr \<lparr>platform = target, status = success, message = None, postId = Some ''post-1''\<rparr>"

definition faulty_adapter :: adapter where
  "faulty_adapter target request =
     (if target = Platform_instagram then Inl (Error ''connection reset'')
      else steady_adapter target request)"

definition rejecting_adapter :: adapter where
  "rejecting_adapter target request =
     (if target = Platform_tiktok
      then Inr \<lparr>platform = target, status = failure, message = Some ''rate limited'', postId = None\<rparr>
      else faulty_adapter target request)"

definition sample_fields :: "(string \<times> json) list" where
  "sample_fields =
     [(''mediaType'', JStr ''image''),
      (''caption'', JStr ''Launch day''),
      (''mediaUrl'', JStr ''https://cdn.example/a.png''),
      (''platforms'', JArr [JStr ''x'', JStr ''instagram'', JStr ''tiktok''])]"

definition both_media_fields :: "(string \<times> json) list" where
  "both_media_fields =
     [(''mediaType'', JStr ''image''),
      (''caption'', JStr ''Launch day''),
      (''mediaUrl'', JStr ''https://cdn.example/a.png''),
      (''mediaBase64'', JStr ''iVBORw0KGgo=''),
      (''mimeType'', JStr ''image/png''),
      (''platforms'', JArr [JStr ''x''])]"

definition inline_only_fields :: "(string \<times> json) list" where
  "inline_only_fields =
     [(''mediaType'', JStr ''image''),
      (''caption'', JStr ''Launch day''),
      (''mediaBase64'', JStr ''iVBORw0KGgo=''),
      (''platforms'', JArr [JStr ''x''])]"

definition video_both_fields :: "(string \<times> json) list" where
  "video_both_fields =
     [(''mediaType'', JStr ''video''),
      (''caption'', JStr ''Teaser''),
      (''mediaUrl'', JStr ''https://cdn.example/v.mp4''),
      (''mediaBase64'', JStr ''AAAAIGZ0eXA=''),
      (''mimeType'', JStr ''video/mp4''),
      (''platforms'', JArr [JStr ''youtube'', JStr ''tiktok''])]"

definition sample_request :: PublishRequest where
  "sample_request =
     \<lparr>mediaType = Media_image, caption = ''Launch day'', title = None, tags = None,
      mediaUrl = Some ''https://cdn.example/a.png'', mediaBase64 = None, mimeType = None,
      callToActionUrl = None, campaignId = None,
      platforms = [Platform_x, Platform_instagram, Platform_tiktok]\<rparr>"

definition sample_generate :: "ImageGenerateParams \<Rightarrow> thrown + ImagesResponse" where
  "sample_generate payload =
     Inr \<lparr>created = 1700000000,
          data = Some [\<lparr>b64_json = None, url = Some ''https://img.example/1.png'',
                        revised_prompt = None\<rparr>]\<rparr>"

definition sample_image_fields :: "(string \<times> json) list" where
  "sample_image_fields =
     [(''prompt'', JStr ''a red fox in fresh snow''), (''aspectRatio'', JStr ''ultrawide'')]"

definition sample_image_request :: ImageRequest where
  "sample_image_request =
     \<lparr>prompt = ''a red fox in fresh snow'', aspectRatio = ultrawide, style = cinematic,
      negativePrompt = None, quality = high\<rparr>"

section \<open>Facts about the schema combinators\<close>

text \<open>A schema built from the combinators returns \<open>OK\<close> exactly when every part does.\<close>

lemma merge_field_OK_iff:
  "merge_field f x = OK y \<longleftrightarrow> (\<exists>g a. f = OK g \<and> x = OK a \<and> y = g a)"
  by (cases f; cases x) auto

lemma merge_array_OK_iff:
  "merge_array rs = OK ys \<longleftrightarrow> rs = map OK ys"
proof (induction rs arbitrary: ys)
  case Nil
  then show ?case by auto
next
  case (Cons r rs)
  show ?case by (cases r; cases ys) (auto simp: merge_field_OK_iff Cons.IH)
qed

lemma z_string_OK_iff: "z_string p v = OK s \<longleftrightarrow> v = Some (JStr s)"
  by (auto simp: z_string_def split: option.splits json.splits)

lemma z_check_OK_iff: "z_check good c msg inner p v = OK x \<longleftrightarrow> inner p v = OK x \<and> good x"
  by (auto simp: z_check_def split: ParseReturn.splits)

lemma z_optional_OK_iff:
  "z_optional inner p v = OK r \<longleftrightarrow>
     (v = None \<and> r = None) \<or> (\<exists>x. v \<noteq> None \<and> inner p v = OK x \<and> r = Some x)"
  by (cases v; cases "inner p v") (auto simp: z_optional_def)

lemma z_default_OK_iff:
  "z_default d inner p v = OK r \<longleftrightarrow> (v = None \<and> r = d) \<or> (v \<noteq> None \<and> inner p v = OK r)"
  by (cases v) (auto simp: z_default_def)

lemma z_enum_OK_iff:
  "z_enum members p v = OK e \<longleftrightarrow> (\<exists>s. v = Some (JStr s) \<and> map_of members s = Some e)"
  by (auto simp: z_enum_def split: option.splits json.splits)

lemma z_array_OK_iff:
  "z_array minLength element p v = OK xs \<longleftrightarrow>
     (\<exists>js. v = Some (JArr js) \<and>
           (case minLength of None \<Rightarrow> True | Some (n, msg) \<Rightarrow> \<not> length js < n) \<and>
           map (\<lambda>(i, j). element (p @ [Idx i]) (Some j)) (enumerate 0 js) = map OK xs)"
  by (auto simp: z_array_def Let_def merge_array_OK_iff merge_field_OK_iff
           split: option.splits json.splits)

lemma z_superRefine_OK_iff:
  "z_superRefine refine inner p v = OK x \<longleftrightarrow> inner p v = OK x \<and> refine x p = []"
  by (auto simp: z_superRefine_def split: ParseReturn.splits list.splits)

lemma parse_Inr_iff: "parse schema body = Inr x \<longleftrightarrow> schema [] (Some body) = OK x"
  by (auto simp: parse_def split: ParseReturn.splits)

lemma parse_Inl: "parse schema body = Inl e \<Longrightarrow> \<exists>is. e = ZodError is"
  by (auto simp: parse_def split: ParseReturn.splits)

text \<open>The same facts for the schemas of the publish route.\<close>

lemma caption_OK_iff:
  "z_min n msg z_string p v = OK c \<longleftrightarrow> v = Some (JStr c) \<and> n \<le> length c"
  by (auto simp: z_min_def z_check_OK_iff z_string_OK_iff)

lemma opt_string_OK_iff:
  "z_optional z_string p v = OK t \<longleftrightarrow> (v = None \<and> t = None) \<or> (\<exists>s. v = Some (JStr s) \<and> t = Some s)"
  by (auto simp: z_optional_OK_iff z_string_OK_iff)

lemma opt_url_OK_iff:
  "z_optional (z_url isUrl z_string) p v = OK u \<longleftrightarrow>
     (v = None \<and> u = None) \<or> (\<exists>s. v = Some (JStr s) \<and> isUrl s \<and> u = Some s)"
  by (auto simp: z_optional_OK_iff z_url_def z_check_OK_iff z_string_OK_iff)

lemma enum_elements_OK_iff:
  "map (\<lambda>(i, j). z_enum members (p @ [Idx i]) (Some j)) (enumerate n js) = map OK xs \<longleftrightarrow>
     list_all2 (\<lambda>j e. \<exists>s. j = JStr s \<and> map_of members s = Some e) js xs"
proof (induction js arbitrary: n xs)
  case Nil
  then show ?case by auto
next
  case (Cons j js)
  show ?case by (cases xs) (auto simp: Cons.IH z_enum_OK_iff)
qed

lemma enum_array_OK_iff:
  "z_array (Some (n, msg)) (z_enum members) p v = OK xs \<longleftrightarrow>
     (\<exists>js. v = Some (JArr js) \<and> n \<le> length js \<and>
           list_all2 (\<lambda>j e. \<exists>s. j = JStr s \<and> map_of members s = Some e) js xs)"
  by (auto simp: z_array_OK_iff enum_elements_OK_iff)

lemma platform_enum_Some_iff:
  "map_of platform_enum s = Some e \<longleftrightarrow> s = platform_name e"
  by (cases e) (auto simp: platform_enum_def)

lemma platforms_OK_iff:
  "z_array (Some (n, msg)) (z_enum platform_enum) p v = OK pl \<longleftrightarrow>
     n \<le> length pl \<and> v = Some (JArr (map (\<lambda>e. JStr (platform_name e)) pl))"
proof -
  have "list_all2 (\<lambda>j e. \<exists>s. j = JStr s \<and> map_of platform_enum s = Some e) js pl \<longleftrightarrow>
        js = map (\<lambda>e. JStr (platform_name e)) pl" for js
    by (induction js arbitrary: pl) (auto simp: list_all2_Cons1 platform_enum_Some_iff)
  then show ?thesis
    by (auto simp: enum_array_OK_iff)
qed

lemma recognized_iff: "recognized j \<longleftrightarrow> (\<exists>e. j = JStr (platform_name e))"
proof
  assume "recognized j"
  then consider "j = JStr (platform_name Platform_x)" | "j = JStr (platform_name Platform_instagram)"
    | "j = JStr (platform_name Platform_tiktok)" | "j = JStr (platform_name Platform_youtube)"
    by (auto simp: recognized_def)
  then show "\<exists>e. j = JStr (platform_name e)" by cases blast+
next
  assume "\<exists>e. j = JStr (platform_name e)"
  then obtain e where "j = JStr (platform_name e)" ..
  then show "recognized j" by (cases e) (simp_all add: recognized_def)
qed

lemma mediaRefinement_empty_iff:
  "mediaRefinement r p = [] \<longleftrightarrow> \<not> (falsy (mediaUrl r) \<and> falsy (mediaBase64 r))"
  by (simp add: mediaRefinement_def)

lemma publishObject_OK_iff:
  "publishObject isUrl p v = OK r \<longleftrightarrow>
     (\<exists>kvs mt c t tg mu mb mi cta cid pl. v = Some (JObj kvs) \<and>
        z_enum mediaType_enum (p @ [Key ''mediaType'']) (map_of kvs ''mediaType'') = OK mt \<and>
        z_min 3 ''Caption must be at least 3 characters.'' z_string
           (p @ [Key ''caption'']) (map_of kvs ''caption'') = OK c \<and>
        z_optional z_string (p @ [Key ''title'']) (map_of kvs ''title'') = OK t \<and>
        z_optional (z_array None z_string) (p @ [Key ''tags'']) (map_of kvs ''tags'') = OK tg \<and>
        z_optional (z_url isUrl z_string) (p @ [Key ''mediaUrl'']) (map_of kvs ''mediaUrl'') = OK mu \<and>
        z_optional z_string (p @ [Key ''mediaBase64'']) (map_of kvs ''mediaBase64'') = OK mb \<and>
        z_optional z_string (p @ [Key ''mimeType'']) (map_of kvs ''mimeType'') = OK mi \<and>
        z_optional (z_url isUrl z_string) (p @ [Key ''callToActionUrl''])
           (map_of kvs ''callToActionUrl'') = OK cta \<and>
        z_optional z_string (p @ [Key ''campaignId'']) (map_of kvs ''campaignId'') = OK cid \<and>
        z_array (Some (1, ''Select at least one platform.'')) (z_enum platform_enum)
           (p @ [Key ''platforms'']) (map_of kvs ''platforms'') = OK pl \<and>
        r = mk_request mt c t tg mu mb mi cta cid pl)"
  apply (cases v)
   apply (simp add: publishObject_def)
  subgoal for b
    apply (cases b)
         apply (simp_all add: publishObject_def Let_def merge_field_OK_iff)
    apply (rule iffI)
     apply clarsimp
    apply clarsimp
    done
  done

section \<open>Facts about the publish route\<close>

lemma parse_publish_iff:
  "parse (publishSchema isUrl) body = Inr r \<longleftrightarrow>
     publishObject isUrl [] (Some body) = OK r \<and> \<not> (falsy (mediaUrl r) \<and> falsy (mediaBase64 r))"
  by (simp add: parse_Inr_iff publishSchema_def z_superRefine_OK_iff mediaRefinement_empty_iff)

lemma accepts_iff: "accepts isUrl body \<longleftrightarrow> (\<exists>r. parse (publishSchema isUrl) body = Inr r)"
  by (auto simp: accepts_def split: sum.splits)

lemma rejected_iff: "\<not> accepts isUrl body \<longleftrightarrow> (\<exists>is. parse (publishSchema isUrl) body = Inl (ZodError is))"
  by (auto simp: accepts_def split: sum.splits dest: parse_Inl)

lemma mk_request_sel [simp]:
  "mediaUrl (mk_request mt c t tg mu mb mi cta cid pl) = mu"
  "mediaBase64 (mk_request mt c t tg mu mb mi cta cid pl) = mb"
  "caption (mk_request mt c t tg mu mb mi cta cid pl) = c"
  "platforms (mk_request mt c t tg mu mb mi cta cid pl) = pl"
  by (simp_all add: mk_request_def)

text \<open>What acceptance says about each property of the body.\<close>

lemma accepted_fields:
  assumes "parse (publishSchema isUrl) body = Inr r"
  obtains kvs where "body = JObj kvs"
    and "map_of kvs ''caption'' = Some (JStr (caption r))" and "3 \<le> length (caption r)"
    and "map_of kvs ''platforms'' = Some (JArr (map (\<lambda>e. JStr (platform_name e)) (platforms r)))"
    and "platforms r \<noteq> []"
    and "\<not> malformed_url isUrl (map_of kvs ''mediaUrl'')"
    and "\<not> malformed_url isUrl (map_of kvs ''callToActionUrl'')"
    and "present (map_of kvs ''mediaUrl'') \<or> present (map_of kvs ''mediaBase64'')"
proof -
  from assms obtain kvs mt c t tg mu mb mi cta cid pl where
    b: "body = JObj kvs"
    and c: "z_min 3 ''Caption must be at least 3 characters.'' z_string
           [Key ''caption''] (map_of kvs ''caption'') = OK c"
    and mu: "z_optional (z_url isUrl z_string) [Key ''mediaUrl''] (map_of kvs ''mediaUrl'') = OK mu"
    and mb: "z_optional z_string [Key ''mediaBase64''] (map_of kvs ''mediaBase64'') = OK mb"
    and cta: "z_optional (z_url isUrl z_string) [Key ''callToActionUrl'']
           (map_of kvs ''callToActionUrl'') = OK cta"
    and pl: "z_array (Some (1, ''Select at least one platform.'')) (z_enum platform_enum)
           [Key ''platforms''] (map_of kvs ''platforms'') = OK pl"
    and r: "r = mk_request mt c t tg mu mb mi cta cid pl"
    and m: "\<not> (falsy (mediaUrl r) \<and> falsy (mediaBase64 r))"
    unfolding parse_publish_iff publishObject_OK_iff by auto
  have 1: "map_of kvs ''caption'' = Some (JStr (caption r))" "3 \<le> length (caption r)"
    using c by (simp_all add: caption_OK_iff r)
  have 2: "map_of kvs ''platforms'' = Some (JArr (map (\<lambda>e. JStr (platform_name e)) (platforms r)))"
    "platforms r \<noteq> []"
    using pl by (auto simp: platforms_OK_iff r)
  have 3: "\<not> malformed_url isUrl (map_of kvs ''mediaUrl'')"
    using mu by (auto simp: opt_url_OK_iff)
  have 4: "\<not> malformed_url isUrl (map_of kvs ''callToActionUrl'')"
    using cta by (auto simp: opt_url_OK_iff)
  have 5: "present (map_of kvs ''mediaUrl'') \<or> present (map_of kvs ''mediaBase64'')"
    using mu mb m by (auto simp: opt_url_OK_iff opt_string_OK_iff r)
  show thesis using that[OF b 1 2 3 4 5] .
qed

lemma POST_rejected:
  assumes "\<not> accepts isUrl body"
  shows "\<exists>is. POST isUrl publish (Inr body) w = \<lparr>response = Json422 is, console = [], world = w\<rparr>"
proof -
  from assms obtain "is" where "parse (publishSchema isUrl) body = Inl (ZodError is)"
    by (auto simp: rejected_iff)
  then have "POST isUrl publish (Inr body) w = \<lparr>response = Json422 is, console = [], world = w\<rparr>"
    by (simp add: POST_def caught_def)
  then show ?thesis ..
qed

lemma POST_accepted:
  assumes "parse (publishSchema isUrl) body = Inr parsed"
  shows "POST isUrl publish (Inr body) w =
     (case publish (publish_payload parsed) (platforms parsed) w of
        (Inl error, w') \<Rightarrow> caught ''Unexpected error while publishing to social platforms.'' error w'
      | (Inr results, w') \<Rightarrow> \<lparr>response = Json200 results, console = [], world = w'\<rparr>)"
  using assms by (simp add: POST_def)

lemma accepted_caption_update:
  assumes "accepts isUrl (JObj kvs)" and "3 \<le> length c"
  shows "accepts isUrl (JObj (AList.update ''caption'' (JStr c) kvs))"
proof -
  from assms(1) obtain r where "parse (publishSchema isUrl) (JObj kvs) = Inr r"
    by (auto simp: accepts_iff)
  then obtain mt c0 t tg mu mb mi cta cid pl where
    f: "z_enum mediaType_enum [Key ''mediaType''] (map_of kvs ''mediaType'') = OK mt"
       "z_optional z_string [Key ''title''] (map_of kvs ''title'') = OK t"
       "z_optional (z_array None z_string) [Key ''tags''] (map_of kvs ''tags'') = OK tg"
       "z_optional (z_url isUrl z_string) [Key ''mediaUrl''] (map_of kvs ''mediaUrl'') = OK mu"
       "z_optional z_string [Key ''mediaBase64''] (map_of kvs ''mediaBase64'') = OK mb"
       "z_optional z_string [Key ''mimeType''] (map_of kvs ''mimeType'') = OK mi"
       "z_optional (z_url isUrl z_string) [Key ''callToActionUrl'']
           (map_of kvs ''callToActionUrl'') = OK cta"
       "z_optional z_string [Key ''campaignId''] (map_of kvs ''campaignId'') = OK cid"
       "z_array (Some (1, ''Select at least one platform.'')) (z_enum platform_enum)
           [Key ''platforms''] (map_of kvs ''platforms'') = OK pl"
    and r: "r = mk_request mt c0 t tg mu mb mi cta cid pl"
    and m: "\<not> (falsy (mediaUrl r) \<and> falsy (mediaBase64 r))"
    unfolding parse_publish_iff publishObject_OK_iff by auto
  have "parse (publishSchema isUrl) (JObj (AList.update ''caption'' (JStr c) kvs))
        = Inr (mk_request mt c t tg mu mb mi cta cid pl)"
    unfolding parse_publish_iff publishObject_OK_iff
    using f m assms(2) by (simp add: update_conv' caption_OK_iff r)
  then show ?thesis by (auto simp: accepts_iff)
qed

text \<open>
  The platform list is checked for its length and its elements only. In a request that
  validation accepts, any non-empty list of platform identifiers may stand in place of the
  platform list, whether or not an identifier occurs twice: the request is still accepted,
  the parsed list is that list as it stands, and \<open>POST\<close> hands it to
  \<open>publishToSocialPlatforms\<close> unchanged.
\<close>

lemma accepted_platforms_update:
  assumes "accepts isUrl (JObj kvs)" and "pl \<noteq> []"
  shows "\<exists>r. parse (publishSchema isUrl)
              (JObj (AList.update ''platforms'' (JArr (map (\<lambda>e. JStr (platform_name e)) pl)) kvs))
            = Inr r \<and> platforms r = pl"
proof -
  from assms(1) obtain r where "parse (publishSchema isUrl) (JObj kvs) = Inr r"
    by (auto simp: accepts_iff)
  then obtain mt c t tg mu mb mi cta cid pl0 where
    f: "z_enum mediaType_enum [Key ''mediaType''] (map_of kvs ''mediaType'') = OK mt"
       "z_min 3 ''Caption must be at least 3 characters.'' z_string
           [Key ''caption''] (map_of kvs ''caption'') = OK c"
       "z_optional z_string [Key ''title''] (map_of kvs ''title'') = OK t"
       "z_optional (z_array None z_string) [Key ''tags''] (map_of kvs ''tags'') = OK tg"
       "z_optional (z_url isUrl z_string) [Key ''mediaUrl''] (map_of kvs ''mediaUrl'') = OK mu"
       "z_optional z_string [Key ''mediaBase64''] (map_of kvs ''mediaBase64'') = OK mb"
       "z_optional z_string [Key ''mimeType''] (map_of kvs ''mimeType'') = OK mi"
       "z_optional (z_url isUrl z_string) [Key ''callToActionUrl'']
           (map_of kvs ''callToActionUrl'') = OK cta"
       "z_optional z_string [Key ''campaignId''] (map_of kvs ''campaignId'') = OK cid"
    and r: "r = mk_request mt c t tg mu mb mi cta cid pl0"
    and m: "\<not> (falsy (mediaUrl r) \<and> falsy (mediaBase64 r))"
    unfolding parse_publish_iff publishObject_OK_iff by auto
  have n: "Suc 0 \<le> length pl"
    using assms(2) by (cases pl) simp_all
  have "parse (publishSchema isUrl)
          (JObj (AList.update ''platforms'' (JArr (map (\<lambda>e. JStr (platform_name e)) pl)) kvs))
        = Inr (mk_request mt c t tg mu mb mi cta cid pl)"
    unfolding parse_publish_iff publishObject_OK_iff
    using f m n by (auto simp: update_conv' platforms_OK_iff r)
  then show ?thesis by simp
qed

lemma POST_hands_on_platforms:
  assumes "accepts isUrl (JObj kvs)" and "pl \<noteq> []"
  shows "\<exists>r. platforms r = pl \<and>
     POST isUrl publish
       (Inr (JObj (AList.update ''platforms'' (JArr (map (\<lambda>e. JStr (platform_name e)) pl)) kvs))) w =
     (case publish (publish_payload r) pl w of
        (Inl error, w') \<Rightarrow> caught ''Unexpected error while publishing to social platforms.'' error w'
      | (Inr results, w') \<Rightarrow> \<lparr>response = Json200 results, console = [], world = w'\<rparr>)"
proof -
  from accepted_platforms_update [OF assms] obtain r where
    p: "parse (publishSchema isUrl)
          (JObj (AList.update ''platforms'' (JArr (map (\<lambda>e. JStr (platform_name e)) pl)) kvs))
        = Inr r"
    and pl: "platforms r = pl"
    by blast
  from POST_accepted [OF p, of publish w] pl show ?thesis
    by (intro exI [of _ r]) simp
qed

lemma list_all_recognized_names: "list_all recognized (map (\<lambda>e. JStr (platform_name e)) pl)"
  by (auto simp: list_all_iff recognized_iff)

text \<open>The orchestrator maps the targets to their results and records every invocation.\<close>

lemma dispatch_eq:
  "dispatch adapter request targets calls =
     (map (publish_to adapter request) targets, calls @ targets)"
  by (induction targets arbitrary: calls) simp_all

lemma publishToSocialPlatforms_eq:
  "publishToSocialPlatforms adapter request targets calls =
     (Inr (map (publish_to adapter request) targets), calls @ targets)"
  by (simp add: publishToSocialPlatforms_def dispatch_eq)

lemma POST_orchestrated:
  assumes "parse (publishSchema isUrl) body = Inr parsed"
  shows "POST isUrl (publishToSocialPlatforms adapter) (Inr body) calls =
     \<lparr>response = Json200 (map (publish_to adapter (publish_payload parsed)) (platforms parsed)),
      console = [], world = calls @ platforms parsed\<rparr>"
  using assms by (simp add: POST_accepted publishToSocialPlatforms_eq)

lemma platform_publish_to:
  "labels_own_platform adapter \<Longrightarrow> platform (publish_to adapter request target) = target"
  by (auto simp: labels_own_platform_def publish_to_def split: sum.splits)

lemma fault_message_nonempty: "fault_message error \<noteq> []"
  by (auto simp: fault_message_def split: thrown.splits)

text \<open>The sample adapters and requests.\<close>

lemma labels_steady: "labels_own_platform steady_adapter"
  by (simp add: labels_own_platform_def steady_adapter_def; fastforce)

lemma labels_faulty: "labels_own_platform faulty_adapter"
  using labels_steady
  by (auto simp: labels_own_platform_def faulty_adapter_def split: if_splits)

lemma labels_rejecting: "labels_own_platform rejecting_adapter"
  using labels_faulty
  by (auto simp: labels_own_platform_def rejecting_adapter_def split: if_splits)

lemma parse_sample: "parse (publishSchema sample_isUrl) (JObj sample_fields) = Inr sample_request"
  by code_simp

section \<open>Facts about the image generation route\<close>

lemma requestSchema_OK_iff:
  "requestSchema p v = OK r \<longleftrightarrow>
     (\<exists>kvs pr ar st np q. v = Some (JObj kvs) \<and>
        z_min 10 ''Prompt must be at least 10 characters.'' z_string
           (p @ [Key ''prompt'']) (map_of kvs ''prompt'') = OK pr \<and>
        z_default square (z_enum aspectRatio_enum) (p @ [Key ''aspectRatio''])
           (map_of kvs ''aspectRatio'') = OK ar \<and>
        z_default cinematic (z_enum style_enum) (p @ [Key ''style'']) (map_of kvs ''style'') = OK st \<and>
        z_optional z_string (p @ [Key ''negativePrompt'']) (map_of kvs ''negativePrompt'') = OK np \<and>
        z_default high (z_enum quality_enum) (p @ [Key ''quality'']) (map_of kvs ''quality'') = OK q \<and>
        r = mk_image_request pr ar st np q)"
  apply (cases v)
   apply (simp add: requestSchema_def)
  subgoal for b
    apply (cases b)
         apply (simp_all add: requestSchema_def Let_def merge_field_OK_iff)
    apply (rule iffI)
     apply clarsimp
    apply clarsimp
    done
  done

lemma aspectRatio_of_request:
  assumes "parse requestSchema body = Inr parsed"
  shows "\<exists>kvs. body = JObj kvs \<and> requested_ratio (map_of kvs ''aspectRatio'') = Some (aspectRatio parsed)"
proof -
  from assms obtain kvs pr ar st np q where
    b: "body = JObj kvs"
    and a: "z_default square (z_enum aspectRatio_enum) [Key ''aspectRatio'']
           (map_of kvs ''aspectRatio'') = OK ar"
    and r: "parsed = mk_image_request pr ar st np q"
    unfolding parse_Inr_iff requestSchema_OK_iff by auto
  have "requested_ratio (map_of kvs ''aspectRatio'') = Some ar"
    using a by (auto simp: z_default_OK_iff z_enum_OK_iff)
  with b r show ?thesis by (simp add: mk_image_request_def)
qed

lemma POST_image_world:
  assumes "parse requestSchema body = Inr parsed"
  shows "world (POST_image VEO_MODEL (Inr generate) (Inr body) sent) =
         sent @ [image_payload VEO_MODEL parsed]"
  using assms
  by (simp add: POST_image_def Let_def caught_def
      split: sum.splits thrown.splits option.splits list.splits)

lemma parse_sample_image:
  "parse requestSchema (JObj sample_image_fields) = Inr sample_image_request"
  by code_simp

section \<open>Validation of publish requests\<close>

text \<open>
  Claim C7. Validation accepts the caption exactly when it is a string of at least three
  characters. Take any request that validation accepts and put another value in place of
  its caption: the new request is accepted if and only if the value is a string whose length
  is at least 3. With the caption removed the request is rejected. In particular a
  caption of exactly three characters passes and one of two characters fails.
\<close>

theorem caption_min_length:
  assumes "accepts isUrl (JObj kvs)"
  shows "(accepts isUrl (JObj (AList.update ''caption'' v kvs)) \<longleftrightarrow> (\<exists>c. v = JStr c \<and> 3 \<le> length c))
       \<and> \<not> accepts isUrl (JObj (AList.delete ''caption'' kvs))"
proof (intro conjI iffI)
  assume "accepts isUrl (JObj (AList.update ''caption'' v kvs))"
  then obtain r where "parse (publishSchema isUrl) (JObj (AList.update ''caption'' v kvs)) = Inr r"
    by (auto simp: accepts_iff)
  then have "v = JStr (caption r)" "3 \<le> length (caption r)"
    by (auto elim!: accepted_fields simp: update_conv')
  then show "\<exists>c. v = JStr c \<and> 3 \<le> length c" by blast
next
  assume "\<exists>c. v = JStr c \<and> 3 \<le> length c"
  then show "accepts isUrl (JObj (AList.update ''caption'' v kvs))"
    using assms by (auto intro: accepted_caption_update)
next
  show "\<not> accepts isUrl (JObj (AList.delete ''caption'' kvs))"
    by (auto simp: accepts_iff delete_conv' elim!: accepted_fields)
qed

theorem caption_min_length_witness:
  "accepts sample_isUrl (JObj sample_fields)
   \<and> accepts sample_isUrl (JObj (AList.update ''caption'' (JStr ''abc'') sample_fields))
   \<and> \<not> accepts sample_isUrl (JObj (AList.update ''caption'' (JStr ''ab'') sample_fields))"
proof -
  have a: "accepts sample_isUrl (JObj sample_fields)"
    by code_simp
  show ?thesis
    using a caption_min_length [OF a, of "JStr ''abc''"] caption_min_length [OF a, of "JStr ''ab''"]
    by simp
qed

text \<open>
  Claim C8. Validation accepts a request only if its platform list is an array that is not
  empty and whose every element is one of the identifiers \<open>x\<close>, \<open>instagram\<close>,
  \<open>tiktok\<close>, \<open>youtube\<close>; a request whose platform list is empty is rejected.
\<close>

theorem targets_nonempty_recognized:
  "(accepts isUrl body \<longrightarrow>
      (\<exists>kvs js. body = JObj kvs \<and> map_of kvs ''platforms'' = Some (JArr js) \<and> js \<noteq> []
          \<and> list_all recognized js))
   \<and> (empty_targets (map_of kvs ''platforms'') \<longrightarrow> \<not> accepts isUrl (JObj kvs))"
proof (intro conjI impI)
  assume "accepts isUrl body"
  then obtain r where "parse (publishSchema isUrl) body = Inr r"
    by (auto simp: accepts_iff)
  then show "\<exists>kvs js. body = JObj kvs \<and> map_of kvs ''platforms'' = Some (JArr js) \<and> js \<noteq> []
          \<and> list_all recognized js"
    by (elim accepted_fields) (simp add: list_all_recognized_names)
next
  assume e: "empty_targets (map_of kvs ''platforms'')"
  show "\<not> accepts isUrl (JObj kvs)"
  proof
    assume "accepts isUrl (JObj kvs)"
    then obtain r where "parse (publishSchema isUrl) (JObj kvs) = Inr r"
      by (auto simp: accepts_iff)
    then show False using e by (elim accepted_fields) (cases "platforms r"; simp)
  qed
qed

theorem targets_nonempty_recognized_witness:
  "accepts sample_isUrl (JObj sample_fields)
   \<and> (\<exists>kvs js. JObj sample_fields = JObj kvs \<and> map_of kvs ''platforms'' = Some (JArr js) \<and> js \<noteq> []
          \<and> list_all recognized js)
   \<and> empty_targets (map_of (AList.update ''platforms'' (JArr []) sample_fields) ''platforms'')
   \<and> \<not> accepts sample_isUrl (JObj (AList.update ''platforms'' (JArr []) sample_fields))"
proof -
  have a: "accepts sample_isUrl (JObj sample_fields)"
    by code_simp
  have e: "empty_targets (map_of (AList.update ''platforms'' (JArr []) sample_fields) ''platforms'')"
    by (simp add: update_conv')
  show ?thesis
    using a e
      targets_nonempty_recognized [of sample_isUrl "JObj sample_fields"
        "AList.update ''platforms'' (JArr []) sample_fields"]
    by blast
qed

text \<open>
  Claim C9. When \<open>mediaUrl\<close> or \<open>callToActionUrl\<close> is present and is not a string that
  passes the URL check, validation rejects the request and \<open>POST\<close> answers 422 without
  calling \<open>publishToSocialPlatforms\<close>: whatever that function would do, the outside
  world is as it was, so no adapter has been invoked.
\<close>

theorem malformed_url_rejected:
  assumes "malformed_url isUrl (map_of kvs ''mediaUrl'')
           \<or> malformed_url isUrl (map_of kvs ''callToActionUrl'')"
  shows "\<not> accepts isUrl (JObj kvs)
       \<and> (\<exists>is. POST isUrl publish (Inr (JObj kvs)) w =
                 \<lparr>response = Json422 is, console = [], world = w\<rparr>)"
proof -
  have "\<not> accepts isUrl (JObj kvs)"
  proof
    assume "accepts isUrl (JObj kvs)"
    then obtain r where "parse (publishSchema isUrl) (JObj kvs) = Inr r"
      by (auto simp: accepts_iff)
    then show False using assms by (elim accepted_fields) simp
  qed
  then show ?thesis by (simp add: POST_rejected)
qed


theorem malformed_url_rejected_witness:
  "malformed_url sample_isUrl (map_of (AList.update ''mediaUrl'' (JStr ''not a url'') sample_fields) ''mediaUrl'')
   \<and> \<not> accepts sample_isUrl (JObj (AList.update ''mediaUrl'' (JStr ''not a url'') sample_fields))
   \<and> (\<exists>is. POST sample_isUrl (publishToSocialPlatforms steady_adapter)
                 (Inr (JObj (AList.update ''mediaUrl'' (JStr ''not a url'') sample_fields))) [] =
               \<lparr>response = Json422 is, console = [], world = []\<rparr>)"
proof -
  have m: "malformed_url sample_isUrl
     (map_of (AList.update ''mediaUrl'' (JStr ''not a url'') sample_fields) ''mediaUrl'')"
    by (simp add: update_conv' sample_isUrl_def)
  then have "malformed_url sample_isUrl
      (map_of (AList.update ''mediaUrl'' (JStr ''not a url'') sample_fields) ''mediaUrl'')
    \<or> malformed_url sample_isUrl
      (map_of (AList.update ''mediaUrl'' (JStr ''not a url'') sample_fields) ''callToActionUrl'')"
    by (rule disjI1)
  from m malformed_url_rejected [OF this, of "publishToSocialPlatforms steady_adapter" "[]"]
  show ?thesis by simp
qed

text \<open>
  Claim C2, as the code has it. Validation accepts a request only if at least one of
  \<open>mediaUrl\<close> and \<open>mediaBase64\<close> is present as a non-empty string; a MIME type is not
  required and both references may be present. A request with neither is rejected with
  status 422 before \<open>publishToSocialPlatforms\<close> is called, so no adapter is invoked.
\<close>

theorem media_reference_required:
  "(accepts isUrl (JObj kvs) \<longrightarrow>
      present (map_of kvs ''mediaUrl'') \<or> present (map_of kvs ''mediaBase64''))
   \<and> (\<not> present (map_of kvs ''mediaUrl'') \<and> \<not> present (map_of kvs ''mediaBase64'') \<longrightarrow>
        (\<exists>is. POST isUrl publish (Inr (JObj kvs)) w =
                 \<lparr>response = Json422 is, console = [], world = w\<rparr>))"
proof -
  have a: "present (map_of kvs ''mediaUrl'') \<or> present (map_of kvs ''mediaBase64'')"
    if "accepts isUrl (JObj kvs)"
  proof -
    from that obtain r where "parse (publishSchema isUrl) (JObj kvs) = Inr r"
      by (auto simp: accepts_iff)
    then show ?thesis by (elim accepted_fields) simp
  qed
  then have "\<not> accepts isUrl (JObj kvs)"
    if "\<not> present (map_of kvs ''mediaUrl'') \<and> \<not> present (map_of kvs ''mediaBase64'')"
    using that by blast
  with a show ?thesis by (auto dest: POST_rejected)
qed

theorem media_reference_required_witness:
  "accepts sample_isUrl (JObj sample_fields)
   \<and> (present (map_of sample_fields ''mediaUrl'') \<or> present (map_of sample_fields ''mediaBase64''))
   \<and> \<not> present (map_of (AList.delete ''mediaUrl'' sample_fields) ''mediaUrl'')
   \<and> \<not> present (map_of (AList.delete ''mediaUrl'' sample_fields) ''mediaBase64'')
   \<and> (\<exists>is. POST sample_isUrl (publishToSocialPlatforms steady_adapter)
                 (Inr (JObj (AList.delete ''mediaUrl'' sample_fields))) [] =
               \<lparr>response = Json422 is, console = [], world = []\<rparr>)"
proof -
  have a: "accepts sample_isUrl (JObj sample_fields)"
    by code_simp
  have n: "\<not> present (map_of (AList.delete ''mediaUrl'' sample_fields) ''mediaUrl'')"
    "\<not> present (map_of (AList.delete ''mediaUrl'' sample_fields) ''mediaBase64'')"
    by (simp_all add: delete_conv' sample_fields_def)
  show ?thesis
    using a n
      media_reference_required [of sample_isUrl sample_fields
        "publishToSocialPlatforms steady_adapter" "[]"]
      media_reference_required [of sample_isUrl "AList.delete ''mediaUrl'' sample_fields"
        "publishToSocialPlatforms steady_adapter" "[]"]
    by blast
qed

text \<open>
  The claim C2 as stated asks for exactly one of the media URL and the inline content with
  its MIME type. A request that carries a URL, inline content and a MIME type at once is
  accepted and dispatched, and so is a request with inline content and no MIME type.
\<close>

theorem exactly_one_media_counterexample:
  "accepts sample_isUrl (JObj both_media_fields)
   \<and> present (map_of both_media_fields ''mediaUrl'')
   \<and> present (map_of both_media_fields ''mediaBase64'')
   \<and> present (map_of both_media_fields ''mimeType'')
   \<and> world (POST sample_isUrl (publishToSocialPlatforms steady_adapter)
              (Inr (JObj both_media_fields)) []) = [Platform_x]
   \<and> accepts sample_isUrl (JObj inline_only_fields)
   \<and> map_of inline_only_fields ''mediaUrl'' = None
   \<and> map_of inline_only_fields ''mimeType'' = None"
  by code_simp

text \<open>
  Claim C5, as the code has it. A request that violates a validation precondition (a bad
  caption length, an empty platform list, an unrecognized platform, no media reference)
  is rejected, and for every rejected request the whole call fails: \<open>POST\<close> answers 422
  with the issues, returns no results, and has not called \<open>publishToSocialPlatforms\<close>,
  so no adapter is invoked. A request with both media references is not a violation.
\<close>

theorem violation_fails_whole_call:
  "(violates_precondition kvs \<longrightarrow>
      \<not> accepts isUrl (JObj kvs)
      \<and> (\<exists>is. POST isUrl publish (Inr (JObj kvs)) w =
                 \<lparr>response = Json422 is, console = [], world = w\<rparr>))
   \<and> (\<not> accepts isUrl body \<longrightarrow>
        (\<exists>is. POST isUrl publish (Inr body) w =
                 \<lparr>response = Json422 is, console = [], world = w\<rparr>))"
proof -
  have rejected: "\<not> accepts isUrl (JObj kvs)" if v: "violates_precondition kvs"
  proof
    assume "accepts isUrl (JObj kvs)"
    then obtain r where "parse (publishSchema isUrl) (JObj kvs) = Inr r"
      by (auto simp: accepts_iff)
    then show False
      using v unfolding violates_precondition_def
      by (elim accepted_fields)
         (cases "platforms r"; auto simp: list_all_recognized_names recognized_iff)
  qed
  show ?thesis
    using rejected by (auto intro: POST_rejected)
qed

theorem violation_fails_whole_call_witness:
  "violates_precondition (AList.update ''caption'' (JStr ''ab'') sample_fields)
   \<and> violates_precondition (AList.update ''platforms'' (JArr []) sample_fields)
   \<and> violates_precondition (AList.update ''platforms'' (JArr [JStr ''x'', JStr ''facebook'']) sample_fields)
   \<and> violates_precondition (AList.delete ''mediaUrl'' sample_fields)
   \<and> \<not> accepts sample_isUrl (JObj (AList.update ''caption'' (JStr ''ab'') sample_fields))
   \<and> (\<exists>is. POST sample_isUrl (publishToSocialPlatforms steady_adapter)
                 (Inr (JObj (AList.update ''caption'' (JStr ''ab'') sample_fields))) [] =
               \<lparr>response = Json422 is, console = [], world = []\<rparr>)"
proof -
  have v: "violates_precondition (AList.update ''caption'' (JStr ''ab'') sample_fields)"
    "violates_precondition (AList.update ''platforms'' (JArr []) sample_fields)"
    "violates_precondition (AList.update ''platforms'' (JArr [JStr ''x'', JStr ''facebook'']) sample_fields)"
    "violates_precondition (AList.delete ''mediaUrl'' sample_fields)"
    by (simp_all add: violates_precondition_def update_conv' delete_conv' sample_fields_def recognized_def)
  show ?thesis
    using v
      violation_fails_whole_call [of "AList.update ''caption'' (JStr ''ab'') sample_fields"
        sample_isUrl "publishToSocialPlatforms steady_adapter" "[]"
        "JObj (AList.update ''caption'' (JStr ''ab'') sample_fields)"]
    by blast
qed

text \<open>
  The claim C5 as stated counts a request with both media references among the violations.
  Such a request passes validation: the call answers 200 with one result per platform and
  the adapters have been invoked.
\<close>

theorem both_references_counterexample:
  "present (map_of video_both_fields ''mediaUrl'')
   \<and> present (map_of video_both_fields ''mediaBase64'')
   \<and> POST sample_isUrl (publishToSocialPlatforms steady_adapter) (Inr (JObj video_both_fields)) [] =
       \<lparr>response = Json200
          [\<lparr>platform = Platform_youtube, status = success, message = None, postId = Some ''post-1''\<rparr>,
           \<lparr>platform = Platform_tiktok, status = success, message = None, postId = Some ''post-1''\<rparr>],
        console = [], world = [Platform_youtube, Platform_tiktok]\<rparr>"
  by code_simp

section \<open>Fan-out and aggregation\<close>

text \<open>
  Claim C1. For a request that passes validation, \<open>POST\<close> with the orchestrator answers
  200 with exactly one result per requested target, in the order of the targets: the result
  at position \<open>i\<close> is the outcome of publishing to the target at position \<open>i\<close>, every
  target has been dispatched once, and when the adapters label their results with their own
  platform the platforms of the results are the target sequence itself. This holds for every
  target list, hence for one with \<open>N\<close> distinct targets.
\<close>

theorem one_result_per_target:
  assumes "parse (publishSchema isUrl) body = Inr parsed"
  shows "\<exists>results.
     POST isUrl (publishToSocialPlatforms adapter) (Inr body) calls =
       \<lparr>response = Json200 results, console = [], world = calls @ platforms parsed\<rparr>
     \<and> length results = length (platforms parsed)
     \<and> (\<forall>i < length (platforms parsed).
           results ! i = publish_to adapter (publish_payload parsed) (platforms parsed ! i))
     \<and> (labels_own_platform adapter \<longrightarrow> map platform results = platforms parsed)"
proof -
  let ?results = "map (publish_to adapter (publish_payload parsed)) (platforms parsed)"
  have "labels_own_platform adapter \<longrightarrow> map platform ?results = platforms parsed"
    by (simp add: platform_publish_to map_idI)
  then show ?thesis
    using POST_orchestrated [OF assms, of adapter calls] by auto
qed

theorem one_result_per_target_witness:
  "parse (publishSchema sample_isUrl) (JObj sample_fields) = Inr sample_request
   \<and> labels_own_platform rejecting_adapter
   \<and> (\<exists>results.
        POST sample_isUrl (publishToSocialPlatforms rejecting_adapter) (Inr (JObj sample_fields)) [] =
          \<lparr>response = Json200 results, console = [],
           world = [Platform_x, Platform_instagram, Platform_tiktok]\<rparr>
        \<and> length results = 3
        \<and> map platform results = [Platform_x, Platform_instagram, Platform_tiktok])"
  using one_result_per_target [OF parse_sample, of rejecting_adapter "[]"] parse_sample labels_rejecting
  by (auto simp: sample_request_def)

text \<open>
  Claim C3. For a request that passes validation, suppose the adapter for target \<open>t\<close>
  raises, and compare with any adapters that differ at most at \<open>t\<close>. The call still
  answers 200; every result for \<open>t\<close> is a \<open>failure\<close> with a non-empty message taken from
  the error; and the result for every other target is the same as with the other adapters,
  so the exception does not stop the collection of the remaining results.
\<close>

theorem adapter_fault_isolated:
  assumes valid: "parse (publishSchema isUrl) body = Inr parsed"
    and raises: "adapter t (publish_payload parsed) = Inl error"
    and same: "\<forall>u. u \<noteq> t \<longrightarrow> adapter' u = adapter u"
  shows "\<exists>results results'.
     POST isUrl (publishToSocialPlatforms adapter) (Inr body) calls =
       \<lparr>response = Json200 results, console = [], world = calls @ platforms parsed\<rparr>
     \<and> POST isUrl (publishToSocialPlatforms adapter') (Inr body) calls =
       \<lparr>response = Json200 results', console = [], world = calls @ platforms parsed\<rparr>
     \<and> length results = length (platforms parsed)
     \<and> length results' = length (platforms parsed)
     \<and> (\<forall>i < length (platforms parsed). platforms parsed ! i = t \<longrightarrow>
           platform (results ! i) = t \<and> status (results ! i) = failure
           \<and> message (results ! i) = Some (fault_message error) \<and> fault_message error \<noteq> [])
     \<and> (\<forall>i < length (platforms parsed). platforms parsed ! i \<noteq> t \<longrightarrow>
           results ! i = results' ! i)"
proof -
  let ?results = "map (publish_to adapter (publish_payload parsed)) (platforms parsed)"
  let ?results' = "map (publish_to adapter' (publish_payload parsed)) (platforms parsed)"
  have 1: "POST isUrl (publishToSocialPlatforms adapter) (Inr body) calls =
       \<lparr>response = Json200 ?results, console = [], world = calls @ platforms parsed\<rparr>"
    by (rule POST_orchestrated [OF valid])
  have 2: "POST isUrl (publishToSocialPlatforms adapter') (Inr body) calls =
       \<lparr>response = Json200 ?results', console = [], world = calls @ platforms parsed\<rparr>"
    by (rule POST_orchestrated [OF valid])
  have at_t: "publish_to adapter (publish_payload parsed) t =
       \<lparr>platform = t, status = failure, message = Some (fault_message error), postId = None\<rparr>"
    using raises by (simp add: publish_to_def)
  have 3: "\<forall>i < length (platforms parsed). platforms parsed ! i = t \<longrightarrow>
           platform (?results ! i) = t \<and> status (?results ! i) = failure
           \<and> message (?results ! i) = Some (fault_message error) \<and> fault_message error \<noteq> []"
    by (simp add: at_t fault_message_nonempty)
  have elsewhere: "publish_to adapter (publish_payload parsed) u =
       publish_to adapter' (publish_payload parsed) u" if "u \<noteq> t" for u
    using same that by (simp add: publish_to_def)
  have 4: "\<forall>i < length (platforms parsed). platforms parsed ! i \<noteq> t \<longrightarrow>
           ?results ! i = ?results' ! i"
    by (simp add: elsewhere)
  show ?thesis
  proof (intro exI conjI)
    show "POST isUrl (publishToSocialPlatforms adapter) (Inr body) calls =
       \<lparr>response = Json200 ?results, console = [], world = calls @ platforms parsed\<rparr>"
      by (rule 1)
    show "POST isUrl (publishToSocialPlatforms adapter') (Inr body) calls =
       \<lparr>response = Json200 ?results', console = [], world = calls @ platforms parsed\<rparr>"
      by (rule 2)
    show "length ?results = length (platforms parsed)" by simp
    show "length ?results' = length (platforms parsed)" by simp
    show "\<forall>i < length (platforms parsed). platforms parsed ! i = t \<longrightarrow>
           platform (?results ! i) = t \<and> status (?results ! i) = failure
           \<and> message (?results ! i) = Some (fault_message error) \<and> fault_message error \<noteq> []"
      by (rule 3)
    show "\<forall>i < length (platforms parsed). platforms parsed ! i \<noteq> t \<longrightarrow>
           ?results ! i = ?results' ! i"
      by (rule 4)
  qed
qed

theorem adapter_fault_isolated_witness:
  "parse (publishSchema sample_isUrl) (JObj sample_fields) = Inr sample_request
   \<and> faulty_adapter Platform_instagram (publish_payload sample_request) = Inl (Error ''connection reset'')
   \<and> steady_adapter Platform_x = faulty_adapter Platform_x
   \<and> steady_adapter Platform_tiktok = faulty_adapter Platform_tiktok
   \<and> steady_adapter Platform_youtube = faulty_adapter Platform_youtube
   \<and> (\<exists>results results'.
        POST sample_isUrl (publishToSocialPlatforms faulty_adapter) (Inr (JObj sample_fields)) [] =
          \<lparr>response = Json200 results, console = [],
           world = [Platform_x, Platform_instagram, Platform_tiktok]\<rparr>
        \<and> POST sample_isUrl (publishToSocialPlatforms steady_adapter) (Inr (JObj sample_fields)) [] =
          \<lparr>response = Json200 results', console = [],
           world = [Platform_x, Platform_instagram, Platform_tiktok]\<rparr>
        \<and> length results = 3 \<and> length results' = 3
        \<and> status (results ! 1) = failure \<and> message (results ! 1) = Some ''connection reset''
        \<and> results ! 0 = results' ! 0 \<and> results ! 2 = results' ! 2)"
proof -
  have r: "faulty_adapter Platform_instagram (publish_payload sample_request) = Inl (Error ''connection reset'')"
    by (simp add: faulty_adapter_def)
  have s: "\<forall>u. u \<noteq> Platform_instagram \<longrightarrow> steady_adapter u = faulty_adapter u"
    by (auto simp: faulty_adapter_def)
  have p: "platforms sample_request = [Platform_x, Platform_instagram, Platform_tiktok]"
    by (simp add: sample_request_def)
  have m: "fault_message (Error ''connection reset'') = ''connection reset''"
    by (simp add: fault_message_def)
  have "\<exists>results results'.
     POST sample_isUrl (publishToSocialPlatforms faulty_adapter) (Inr (JObj sample_fields)) [] =
       \<lparr>response = Json200 results, console = [], world = [] @ platforms sample_request\<rparr>
     \<and> POST sample_isUrl (publishToSocialPlatforms steady_adapter) (Inr (JObj sample_fields)) [] =
       \<lparr>response = Json200 results', console = [], world = [] @ platforms sample_request\<rparr>
     \<and> length results = length (platforms sample_request)
     \<and> length results' = length (platforms sample_request)
     \<and> (\<forall>i < length (platforms sample_request). platforms sample_request ! i = Platform_instagram \<longrightarrow>
           platform (results ! i) = Platform_instagram \<and> status (results ! i) = failure
           \<and> message (results ! i) = Some (fault_message (Error ''connection reset''))
           \<and> fault_message (Error ''connection reset'') \<noteq> [])
     \<and> (\<forall>i < length (platforms sample_request). platforms sample_request ! i \<noteq> Platform_instagram \<longrightarrow>
           results ! i = results' ! i)"
    by (rule adapter_fault_isolated [OF parse_sample r s, of "[]"])
  then obtain results results' where
    1: "POST sample_isUrl (publishToSocialPlatforms faulty_adapter) (Inr (JObj sample_fields)) [] =
       \<lparr>response = Json200 results, console = [], world = [] @ platforms sample_request\<rparr>"
    and 2: "POST sample_isUrl (publishToSocialPlatforms steady_adapter) (Inr (JObj sample_fields)) [] =
       \<lparr>response = Json200 results', console = [], world = [] @ platforms sample_request\<rparr>"
    and l: "length results = length (platforms sample_request)"
    and l': "length results' = length (platforms sample_request)"
    and f: "\<forall>i < length (platforms sample_request). platforms sample_request ! i = Platform_instagram \<longrightarrow>
           platform (results ! i) = Platform_instagram \<and> status (results ! i) = failure
           \<and> message (results ! i) = Some (fault_message (Error ''connection reset''))
           \<and> fault_message (Error ''connection reset'') \<noteq> []"
    and o: "\<forall>i < length (platforms sample_request). platforms sample_request ! i \<noteq> Platform_instagram \<longrightarrow>
           results ! i = results' ! i"
    by (elim exE conjE)
  have f1: "status (results ! 1) = failure" "message (results ! 1) = Some ''connection reset''"
    using f[rule_format, of 1] p m by simp_all
  have o0: "results ! 0 = results' ! 0" using o[rule_format, of 0] p by simp
  have o2: "results ! 2 = results' ! 2" using o[rule_format, of 2] p by simp
  have w: "[] @ platforms sample_request = [Platform_x, Platform_instagram, Platform_tiktok]"
    by (simp add: p)
  have n: "length results = 3" "length results' = 3"
    using l l' p by simp_all
  have e: "steady_adapter Platform_x = faulty_adapter Platform_x"
    "steady_adapter Platform_tiktok = faulty_adapter Platform_tiktok"
    "steady_adapter Platform_youtube = faulty_adapter Platform_youtube"
    using s by simp_all
  show ?thesis
  proof (intro conjI exI)
    show "POST sample_isUrl (publishToSocialPlatforms faulty_adapter) (Inr (JObj sample_fields)) [] =
          \<lparr>response = Json200 results, console = [],
           world = [Platform_x, Platform_instagram, Platform_tiktok]\<rparr>"
      using 1 unfolding w .
    show "POST sample_isUrl (publishToSocialPlatforms steady_adapter) (Inr (JObj sample_fields)) [] =
          \<lparr>response = Json200 results', console = [],
           world = [Platform_x, Platform_instagram, Platform_tiktok]\<rparr>"
      using 2 unfolding w .
  qed (rule parse_sample r e n f1 o0 o2)+
qed

text \<open>
  Claim C4. For a request that passes validation, failures of platforms never fail the
  call: whatever the adapters do, \<open>POST\<close> answers 200 with one result per requested platform
  and logs no error. A result is a \<open>failure\<close> exactly when that platform's adapter raised
  or reported a failure, however many there are.
\<close>

theorem platform_failures_contained:
  assumes "parse (publishSchema isUrl) body = Inr parsed"
  shows "\<exists>results.
     POST isUrl (publishToSocialPlatforms adapter) (Inr body) calls =
       \<lparr>response = Json200 results, console = [], world = calls @ platforms parsed\<rparr>
     \<and> status_code (response (POST isUrl (publishToSocialPlatforms adapter) (Inr body) calls)) = 200
     \<and> length results = length (platforms parsed)
     \<and> (\<forall>i < length (platforms parsed).
           platform_failed adapter (publish_payload parsed) (platforms parsed ! i)
             \<longrightarrow> status (results ! i) = failure)
     \<and> (\<forall>i < length (platforms parsed).
           \<not> platform_failed adapter (publish_payload parsed) (platforms parsed ! i)
             \<longrightarrow> status (results ! i) = success)"
proof -
  have f: "status (publish_to adapter request target) = failure"
    if "platform_failed adapter request target" for request target
    using that by (auto simp: platform_failed_def publish_to_def split: sum.splits)
  have s: "status (publish_to adapter request target) = success"
    if "\<not> platform_failed adapter request target" for request target
    using that by (cases "status (publish_to adapter request target)")
      (auto simp: platform_failed_def publish_to_def split: sum.splits)
  show ?thesis
    using POST_orchestrated [OF assms, of adapter calls] f s by auto
qed

theorem platform_failures_contained_witness:
  "parse (publishSchema sample_isUrl) (JObj sample_fields) = Inr sample_request
   \<and> platform_failed rejecting_adapter (publish_payload sample_request) Platform_instagram
   \<and> platform_failed rejecting_adapter (publish_payload sample_request) Platform_tiktok
   \<and> \<not> platform_failed rejecting_adapter (publish_payload sample_request) Platform_x
   \<and> (\<exists>results.
        POST sample_isUrl (publishToSocialPlatforms rejecting_adapter) (Inr (JObj sample_fields)) [] =
          \<lparr>response = Json200 results, console = [],
           world = [Platform_x, Platform_instagram, Platform_tiktok]\<rparr>
        \<and> map status results = [success, failure, failure])"
proof -
  have pf: "platform_failed rejecting_adapter (publish_payload sample_request) Platform_instagram"
    "platform_failed rejecting_adapter (publish_payload sample_request) Platform_tiktok"
    "\<not> platform_failed rejecting_adapter (publish_payload sample_request) Platform_x"
    by (simp_all add: platform_failed_def rejecting_adapter_def faulty_adapter_def steady_adapter_def)
  from platform_failures_contained [OF parse_sample, of rejecting_adapter "[]"]
  obtain results where
    r: "POST sample_isUrl (publishToSocialPlatforms rejecting_adapter) (Inr (JObj sample_fields)) [] =
       \<lparr>response = Json200 results, console = [], world = [] @ platforms sample_request\<rparr>"
    and l: "length results = length (platforms sample_request)"
    and f: "\<forall>i < length (platforms sample_request).
           platform_failed rejecting_adapter (publish_payload sample_request) (platforms sample_request ! i)
             \<longrightarrow> status (results ! i) = failure"
    and s: "\<forall>i < length (platforms sample_request).
           \<not> platform_failed rejecting_adapter (publish_payload sample_request) (platforms sample_request ! i)
             \<longrightarrow> status (results ! i) = success"
    by blast
  have p: "platforms sample_request = [Platform_x, Platform_instagram, Platform_tiktok]"
    by (simp add: sample_request_def)
  from l p obtain a b c where abc: "results = [a, b, c]"
    by (auto simp: length_Suc_conv numeral_3_eq_3)
  have "status a = success" using s[rule_format, of 0] pf p abc by simp
  moreover have "status b = failure" using f[rule_format, of 1] pf p abc by simp
  moreover have "status c = failure" using f[rule_format, of 2] pf p abc by simp
  ultimately have "map status results = [success, failure, failure]"
    using abc by simp
  with r p pf parse_sample show ?thesis by auto
qed

section \<open>Image size\<close>

text \<open>
  Claim C10. The mapping from aspect ratios to image sizes is total and fixed: \<open>square\<close>,
  \<open>portrait\<close>, \<open>landscape\<close>, \<open>ultrawide\<close> and \<open>vertical\<close> map to 1024x1024, 1024x1536,
  1536x1024, 1792x1024 and 1024x1792. For every image request that passes validation, the
  payload built for the image API has as its size the image of the request's aspect ratio
  (the default \<open>square\<close> when the request names none), and once the client is available
  that payload is the one sent upstream.
\<close>

theorem size_follows_aspect_ratio:
  "aspectRatioToSize square = Size_1024x1024
   \<and> aspectRatioToSize portrait = Size_1024x1536
   \<and> aspectRatioToSize landscape = Size_1536x1024
   \<and> aspectRatioToSize ultrawide = Size_1792x1024
   \<and> aspectRatioToSize vertical = Size_1024x1792
   \<and> (parse requestSchema body = Inr parsed \<longrightarrow>
        (\<exists>kvs. body = JObj kvs
           \<and> requested_ratio (map_of kvs ''aspectRatio'') = Some (aspectRatio parsed))
        \<and> payload_size (image_payload VEO_MODEL parsed) = aspectRatioToSize (aspectRatio parsed)
        \<and> world (POST_image VEO_MODEL (Inr generate) (Inr body) sent) =
            sent @ [image_payload VEO_MODEL parsed])"
  by (simp add: aspectRatio_of_request POST_image_world image_payload_def)

theorem size_follows_aspect_ratio_witness:
  "parse requestSchema (JObj sample_image_fields) = Inr sample_image_request
   \<and> requested_ratio (map_of sample_image_fields ''aspectRatio'') = Some ultrawide
   \<and> payload_size (image_payload None sample_image_request) = Size_1792x1024
   \<and> map payload_size
        (world (POST_image None (Inr sample_generate) (Inr (JObj sample_image_fields)) [])) =
      [Size_1792x1024]"
proof -
  have a: "aspectRatio sample_image_request = ultrawide"
    by (simp add: sample_image_request_def)
  have r: "requested_ratio (map_of sample_image_fields ''aspectRatio'') = Some ultrawide"
    by (simp add: sample_image_fields_def aspectRatio_enum_def)
  show ?thesis
    using size_follows_aspect_ratio [of "JObj sample_image_fields" sample_image_request None
        sample_generate "[]"] parse_sample_image a r
    by simp
qed

end
